theory Spec2Isabelle
  imports Main
begin

section \<open>Declarations handed to the provisioning runtime\<close>

text \<open>
  The constructs of \<^verbatim>\<open>lib/repository.ts\<close> build a tree of resource declarations; nothing
  is provisioned while they run. Three revisions of the file are among the sources:
  \<^item> \<open>v0\<close>, the oldest one (one label, mandatory webhook, no CODEOWNERS file, no secrets);
  \<^item> \<open>v1\<close>, the "earlier revision" of the specification (\<open>v0\<close> plus the CODEOWNERS file
    and \<^verbatim>\<open>addSecret\<close>);
  \<^item> \<open>v2\<close>, the "later revision" (three labels, review-gated branch protection, optional
    webhook, logical-id pinning, no CODEOWNERS file).

  A declaration is the object literal given to a resource constructor, together with the
  id it was created under. An attribute a revision does not pass is \<open>None\<close>.
\<close>

datatype GithubProvider = GithubProvider string

record ITeam =
  ITeam_id :: string

text \<open>
  \<^verbatim>\<open>new R(this, id, props)\<close> adds a child \<open>id\<close> with attributes \<open>props\<close> to the
  enclosing construct. The flag records whether \<^verbatim>\<open>setOldId\<close> was applied to it.
\<close>

datatype 'a declared = Declared (construct_id: string) (old_id: bool) (props: 'a)

definition new :: "string \<Rightarrow> 'a \<Rightarrow> 'a declared" where
  "new i p = Declared i False p"

text \<open>
  Modelled from the spec: \<^verbatim>\<open>./logical-id-override\<close> (\<^verbatim>\<open>setOldId\<close>) is not among the
  sources. The specification describes it as a side-channel call that pins a stable
  identifier onto a declaration; it leaves the declaration's attributes alone.
\<close>

definition setOldId :: "'a declared \<Rightarrow> 'a declared" where
  "setOldId d = Declared (construct_id d) True (props d)"

record IssueLabelConfig =
  il_color :: string
  il_name :: string
  il_repository :: string
  il_provider :: GithubProvider

record RequiredPullRequestReviews =
  requiredApprovingReviewCount :: nat
  requireCodeOwnerReviews :: bool
  dismissStaleReviews :: bool

record RequiredStatusChecks =
  strict :: bool
  contexts :: "string list"

record BranchProtectionConfig =
  pattern :: string
  repositoryId :: string
  enforceAdmins :: bool
  allowsDeletions :: bool
  allowsForcePushes :: bool
  requiredPullRequestReviews :: "RequiredPullRequestReviews list option"
  requireConversationResolution :: "bool option"
  requiredStatusChecks :: "RequiredStatusChecks list"
  bp_provider :: GithubProvider

record TeamRepositoryConfig =
  tr_repository :: string
  teamId :: string
  permission :: string
  tr_provider :: GithubProvider

record WebhookConfiguration =
  url :: string
  contentType :: string

record RepositoryWebhookConfig =
  wh_repository :: string
  configuration :: WebhookConfiguration
  events :: "string list"
  wh_provider :: GithubProvider

text \<open>The CODEOWNERS file is declared without a provider attribute.\<close>

record RepositoryFileConfig =
  rf_repository :: string
  rf_count :: string
  rf_file :: string
  rf_content :: string

datatype resource =
    is_IssueLabel: IssueLabel IssueLabelConfig
  | is_BranchProtection: BranchProtection BranchProtectionConfig
  | is_TeamRepository: TeamRepository TeamRepositoryConfig
  | is_RepositoryWebhook: RepositoryWebhook RepositoryWebhookConfig
  | is_RepositoryFile: RepositoryFile RepositoryFileConfig

record RepositoryResourceConfig =
  repo_name :: string
  repo_description :: string
  archiveOnDestroy :: "bool option"
  visibility :: string
  homepageUrl :: string
  hasIssues :: bool
  hasWiki :: bool
  autoInit :: bool
  hasProjects :: bool
  deleteBranchOnMerge :: bool
  allowAutoMerge :: "bool option"
  allowUpdateBranch :: "bool option"
  squashMergeCommitMessage :: "string option"
  squashMergeCommitTitle :: "string option"
  vulnerabilityAlerts :: "bool option"
  repo_topics :: "string list"
  repo_provider :: GithubProvider

record DataGithubRepositoryConfig =
  data_name :: string
  data_provider :: GithubProvider

text \<open>
  The repository handle \<^verbatim>\<open>Repository | DataGithubRepository\<close>. Both expose the attribute
  \<^verbatim>\<open>name\<close>, which every dependent declaration reads. As the value of an attribute it is
  read as what it resolves to, the name the handle was declared with.
\<close>

datatype RepositoryHandle =
    Repository "RepositoryResourceConfig declared"
  | DataGithubRepository "DataGithubRepositoryConfig declared"

fun repository_name :: "RepositoryHandle \<Rightarrow> string" where
  "repository_name (Repository r) = repo_name (props r)"
| "repository_name (DataGithubRepository r) = data_name (props r)"

text \<open>
  Spliced into a template, \<^verbatim>\<open>repository.name\<close> is not the name but a reference to the
  attribute, which the provisioning runtime resolves: \<^verbatim>\<open>${github_repository.ID.name}\<close> for
  a declared repository and \<^verbatim>\<open>${data.github_repository.ID.name}\<close> for a looked-up one. The
  model takes the id under which the handle was declared for \<^verbatim>\<open>ID\<close>.
\<close>

fun name_reference :: "RepositoryHandle \<Rightarrow> string" where
  "name_reference (Repository r) = ''${github_repository.'' @ construct_id r @ ''.name}''"
| "name_reference (DataGithubRepository r) =
     ''${data.github_repository.'' @ construct_id r @ ''.name}''"

section \<open>Configuration records\<close>

text \<open>
  \<^verbatim>\<open>RepositoryConfig\<close> and the \<^verbatim>\<open>Pick\<close> types cut from it, as a chain of record
  extensions. The type parameter is the type of \<^verbatim>\<open>webhookUrl\<close>: \<open>string\<close> where the
  field is mandatory (v0, v1), \<open>string option\<close> where it is optional (v2). An optional
  field is an \<open>option\<close>; \<open>None\<close> is an absent (undefined) property.
\<close>

record 'u TeamWebhookProvider =
  team :: ITeam
  webhookUrl :: 'u
  provider :: GithubProvider

record 'u SetupFields = "'u TeamWebhookProvider" +
  protectMain :: "bool option"
  protectMainChecks :: "string list option"

record 'u RepositoryConfig = "'u SetupFields" +
  description :: "string option"
  topics :: "string list option"

record 'u SetupConfig = "'u SetupFields" +
  repository :: RepositoryHandle

text \<open>\<^verbatim>\<open>C & { repositoryName: string }\<close>, for the picked or full configuration \<open>C\<close>.\<close>

record 'c WithRepositoryName =
  config :: 'c
  repositoryName :: string

section \<open>Helpers of the host language\<close>

text \<open>\<^verbatim>\<open>String.prototype.endsWith\<close>.\<close>

definition endsWith :: "string \<Rightarrow> string \<Rightarrow> bool" where
  "endsWith s t = (length t \<le> length s \<and> drop (length s - length t) s = t)"

text \<open>\<^verbatim>\<open>Array.prototype.join\<close> on strings.\<close>

fun join :: "string \<Rightarrow> string list \<Rightarrow> string" where
  "join sep [] = []"
| "join sep [x] = x"
| "join sep (x # y # ys) = x @ sep @ join sep (y # ys)"

text \<open>Truthiness of an optional string: undefined and the empty string are falsy.\<close>

fun truthy :: "string option \<Rightarrow> bool" where
  "truthy None = False"
| "truthy (Some s) = (s \<noteq> [])"

text \<open>A destructuring default: it applies to an absent property only.\<close>

fun default_to :: "'a \<Rightarrow> 'a option \<Rightarrow> 'a" where
  "default_to d None = d"
| "default_to d (Some x) = x"

section \<open>RepositorySetup\<close>

text \<open>
  A \<^verbatim>\<open>RepositorySetup\<close> construct: its own id and the declarations created under it,
  in the order the constructor creates them. The constructor's \<^verbatim>\<open>scope\<close> argument is the
  enclosing construct; here the constructor returns the new construct and its caller
  keeps it.
\<close>

record RepositorySetup =
  setup_id :: string
  children :: "resource declared list"

subsection \<open>The object literals\<close>

definition automerge_label :: "RepositoryHandle \<Rightarrow> GithubProvider \<Rightarrow> resource" where
  "automerge_label repo prov = IssueLabel
     \<lparr> il_color = ''5DC8DB'', il_name = ''automerge'',
       il_repository = repository_name repo, il_provider = prov \<rparr>"

definition no_auto_close_label :: "RepositoryHandle \<Rightarrow> GithubProvider \<Rightarrow> resource" where
  "no_auto_close_label repo prov = IssueLabel
     \<lparr> il_color = ''EE2222'', il_name = ''no-auto-close'',
       il_repository = repository_name repo, il_provider = prov \<rparr>"

definition auto_approve_label :: "RepositoryHandle \<Rightarrow> GithubProvider \<Rightarrow> resource" where
  "auto_approve_label repo prov = IssueLabel
     \<lparr> il_color = ''8BF8BD'', il_name = ''auto-approve'',
       il_repository = repository_name repo, il_provider = prov \<rparr>"

text \<open>Branch protection as v0 and v1 declare it.\<close>

definition main_protection_v1 ::
  "RepositoryHandle \<Rightarrow> string list \<Rightarrow> GithubProvider \<Rightarrow> resource" where
  "main_protection_v1 repo checks prov = BranchProtection
     \<lparr> pattern = ''main'', repositoryId = repository_name repo,
       enforceAdmins = True, allowsDeletions = False, allowsForcePushes = False,
       requiredPullRequestReviews = None,
       requireConversationResolution = None,
       requiredStatusChecks = [\<lparr> strict = True, contexts = checks \<rparr>],
       bp_provider = prov \<rparr>"

text \<open>Branch protection as v2 declares it.\<close>

definition main_protection_v2 ::
  "RepositoryHandle \<Rightarrow> string list \<Rightarrow> GithubProvider \<Rightarrow> resource" where
  "main_protection_v2 repo checks prov = BranchProtection
     \<lparr> pattern = ''main'', repositoryId = repository_name repo,
       enforceAdmins = True, allowsDeletions = False, allowsForcePushes = False,
       requiredPullRequestReviews =
         Some [\<lparr> requiredApprovingReviewCount = 1, requireCodeOwnerReviews = False,
                 dismissStaleReviews = False \<rparr>],
       requireConversationResolution = Some True,
       requiredStatusChecks = [\<lparr> strict = True, contexts = checks \<rparr>],
       bp_provider = prov \<rparr>"

definition managing_team :: "RepositoryHandle \<Rightarrow> ITeam \<Rightarrow> GithubProvider \<Rightarrow> resource" where
  "managing_team repo t prov = TeamRepository
     \<lparr> tr_repository = repository_name repo, teamId = ITeam_id t,
       permission = ''admin'', tr_provider = prov \<rparr>"

definition slack_webhook :: "RepositoryHandle \<Rightarrow> string \<Rightarrow> GithubProvider \<Rightarrow> resource" where
  "slack_webhook repo u prov = RepositoryWebhook
     \<lparr> wh_repository = repository_name repo,
       configuration = \<lparr> url = u, contentType = ''json'' \<rparr>,
       events = [''issues''], wh_provider = prov \<rparr>"

text \<open>
  The template literal of the \<^verbatim>\<open>count\<close> attribute, with \<^verbatim>\<open>${repository.name}\<close> spliced in.
  The construct only builds this text; it is the provisioning runtime that evaluates it
  later.
\<close>

definition codeowners_count :: "RepositoryHandle \<Rightarrow> string" where
  \<open>codeowners_count repo =
     ''${regex("-go", '' @ name_reference repo @ '') == "-go" ? 1 : 0}''\<close>

definition codeowners_content :: string where
  "codeowners_content = join [CHR 0x0A]
     [''# These owners will be the default owners for everything in '',
      ''# the repo. Unless a later match takes precedence, '',
      ''# they will be requested for review when someone opens a '',
      ''# pull request.'',
      ''*       @cdktf/tf-cdk-team'']"

definition codeowners :: "RepositoryHandle \<Rightarrow> resource" where
  "codeowners repo = RepositoryFile
     \<lparr> rf_repository = repository_name repo, rf_count = codeowners_count repo,
       rf_file = ''.github/CODEOWNERS'', rf_content = codeowners_content \<rparr>"

subsection \<open>The constructors\<close>

text \<open>The oldest revision (second document of \<^verbatim>\<open>unnamed/part_000\<close>).\<close>

definition RepositorySetup_v0 :: "string \<Rightarrow> string SetupConfig \<Rightarrow> RepositorySetup" where
  "RepositorySetup_v0 name cfg =
     (let protectMain' = default_to False (protectMain cfg);
          protectMainChecks' = default_to [''build''] (protectMainChecks cfg);
          provider' = provider cfg;
          repository' = repository cfg;
          team' = team cfg;
          webhookUrl' = webhookUrl cfg
      in \<lparr> setup_id = name,
           children =
             [new ''automerge-label'' (automerge_label repository' provider')]
             @ (if protectMain'
                then [new ''main-protection''
                        (main_protection_v1 repository' protectMainChecks' provider')]
                else [])
             @ [new ''managing-team'' (managing_team repository' team' provider')]
             @ [new ''slack-webhook'' (slack_webhook repository' webhookUrl' provider')] \<rparr>)"

text \<open>The earlier revision (\<^verbatim>\<open>lib/repository.ts\<close>).\<close>

definition RepositorySetup_v1 :: "string \<Rightarrow> string SetupConfig \<Rightarrow> RepositorySetup" where
  "RepositorySetup_v1 name cfg =
     (let protectMain' = default_to False (protectMain cfg);
          protectMainChecks' = default_to [''build''] (protectMainChecks cfg);
          provider' = provider cfg;
          repository' = repository cfg;
          team' = team cfg;
          webhookUrl' = webhookUrl cfg
      in \<lparr> setup_id = name,
           children =
             [new ''automerge-label'' (automerge_label repository' provider')]
             @ (if protectMain'
                then [new ''main-protection''
                        (main_protection_v1 repository' protectMainChecks' provider')]
                else [])
             @ [new ''managing-team'' (managing_team repository' team' provider')]
             @ [new ''slack-webhook'' (slack_webhook repository' webhookUrl' provider')]
             @ [new ''codeowners'' (codeowners repository')] \<rparr>)"

text \<open>
  The later revision (first document of \<^verbatim>\<open>unnamed/part_000\<close>). The webhook sits under
  \<^verbatim>\<open>if (webhookUrl)\<close>: an absent or empty URL declares none.
\<close>

definition RepositorySetup_v2 ::
  "string \<Rightarrow> string option SetupConfig \<Rightarrow> RepositorySetup" where
  "RepositorySetup_v2 name cfg =
     (let protectMain' = default_to False (protectMain cfg);
          protectMainChecks' = default_to [''build'', ''license/cla''] (protectMainChecks cfg);
          provider' = provider cfg;
          repository' = repository cfg;
          team' = team cfg;
          webhookUrl' = webhookUrl cfg
      in \<lparr> setup_id = name,
           children =
             [setOldId (new ''automerge-label'' (automerge_label repository' provider'))]
             @ [setOldId (new ''no-auto-close-label''
                  (no_auto_close_label repository' provider'))]
             @ [new ''auto-approve-label'' (auto_approve_label repository' provider')]
             @ (if protectMain'
                then [setOldId (new ''main-protection''
                        (main_protection_v2 repository' protectMainChecks' provider'))]
                else [])
             @ [setOldId (new ''managing-team'' (managing_team repository' team' provider'))]
             @ (case webhookUrl' of
                  None \<Rightarrow> []
                | Some u \<Rightarrow>
                    if u = [] then []
                    else [setOldId (new ''slack-webhook''
                            (slack_webhook repository' u provider'))]) \<rparr>)"

section \<open>Secrets\<close>

text \<open>
  Modelled from the spec: \<^verbatim>\<open>./secrets\<close> (\<^verbatim>\<open>SecretFromVariable\<close> and its method
  \<^verbatim>\<open>for\<close>) is not among the sources. The specification says that the construct
  "resolves a secret's value from an external variable source and binds it to the
  repository/provider pair", and that one call yields "exactly one secret-binding
  declaration referencing the created repository and its provider".
\<close>

record SecretBinding =
  sb_variable :: string
  sb_repository :: RepositoryHandle
  sb_provider :: GithubProvider

record SecretFromVariable =
  secret_name :: string
  bindings :: "SecretBinding list"

definition new_SecretFromVariable :: "string \<Rightarrow> SecretFromVariable" where
  "new_SecretFromVariable name = \<lparr> secret_name = name, bindings = [] \<rparr>"

definition secret_for ::
  "SecretFromVariable \<Rightarrow> RepositoryHandle \<Rightarrow> GithubProvider \<Rightarrow> SecretFromVariable" where
  "secret_for v repo prov =
     v\<lparr> bindings := bindings v @
          [\<lparr> sb_variable = secret_name v, sb_repository = repo, sb_provider = prov \<rparr>] \<rparr>"

section \<open>GithubRepository\<close>

text \<open>
  What the two top-level constructs hold: their own id, the public field
  \<^verbatim>\<open>resource\<close> and the \<^verbatim>\<open>RepositorySetup\<close> child created under the id
  \<^verbatim>\<open>repository-setup\<close>. \<^verbatim>\<open>GithubRepository\<close> adds its private provider field and the
  secret constructs that \<^verbatim>\<open>addSecret\<close> creates under it.
\<close>

record 'r RepositoryConstruct =
  this_id :: string
  resource :: "'r declared"
  repository_setup :: RepositorySetup

record GithubRepository = "RepositoryResourceConfig RepositoryConstruct" +
  this_provider :: GithubProvider
  secrets :: "SecretFromVariable list"

definition defaultTopics :: "string list" where
  "defaultTopics =
     [''cdktf'', ''terraform'', ''terraform-cdk'', ''cdk'', ''provider'', ''pre-built-provider'']"

definition defaultDescription :: string where
  "defaultDescription = ''Repository management for prebuilt cdktf providers via cdktf''"

text \<open>
  The earlier revision. (The oldest revision's \<^verbatim>\<open>GithubRepository\<close> is this one without
  the provider field and without \<^verbatim>\<open>addSecret\<close>, on \<open>RepositorySetup_v0\<close>.)
\<close>

definition GithubRepository_v1 :: "string \<Rightarrow> string RepositoryConfig \<Rightarrow> GithubRepository" where
  "GithubRepository_v1 name cfg =
     (let topics' = default_to defaultTopics (topics cfg);
          description' = default_to defaultDescription (description cfg);
          provider' = provider cfg;
          resource' = new ''repo''
            \<lparr> repo_name = name, repo_description = description',
              archiveOnDestroy = None,
              visibility = ''public'', homepageUrl = ''https://cdk.tf'',
              hasIssues = True, hasWiki = False, autoInit = True, hasProjects = False,
              deleteBranchOnMerge = True,
              allowAutoMerge = None, allowUpdateBranch = None,
              squashMergeCommitMessage = None, squashMergeCommitTitle = None,
              vulnerabilityAlerts = None,
              repo_topics = topics', repo_provider = provider' \<rparr>
      in \<lparr> this_id = name, resource = resource',
           repository_setup = RepositorySetup_v1 ''repository-setup''
             \<lparr> team = team cfg, webhookUrl = webhookUrl cfg, provider = provider cfg,
               protectMain = protectMain cfg, protectMainChecks = protectMainChecks cfg,
               repository = Repository resource' \<rparr>,
           this_provider = provider', secrets = [] \<rparr>)"

text \<open>The later revision.\<close>

definition GithubRepository_v2 ::
  "string \<Rightarrow> string option RepositoryConfig \<Rightarrow> GithubRepository" where
  "GithubRepository_v2 name cfg =
     (let topics' = default_to defaultTopics (topics cfg);
          description' = default_to defaultDescription (description cfg);
          provider' = provider cfg;
          resource' = setOldId (new ''repo''
            \<lparr> repo_name = name, repo_description = description',
              archiveOnDestroy = Some True,
              visibility = ''public'', homepageUrl = ''https://cdk.tf'',
              hasIssues = (\<not> endsWith name ''-go''),
              hasWiki = False, autoInit = True, hasProjects = False,
              deleteBranchOnMerge = True,
              allowAutoMerge = Some True, allowUpdateBranch = Some True,
              squashMergeCommitMessage = Some ''PR_BODY'',
              squashMergeCommitTitle = Some ''PR_TITLE'',
              vulnerabilityAlerts = Some True,
              repo_topics = topics', repo_provider = provider' \<rparr>)
      in \<lparr> this_id = name, resource = resource',
           repository_setup = RepositorySetup_v2 ''repository-setup''
             \<lparr> team = team cfg, webhookUrl = webhookUrl cfg, provider = provider cfg,
               protectMain = protectMain cfg, protectMainChecks = protectMainChecks cfg,
               repository = Repository resource' \<rparr>,
           this_provider = provider', secrets = [] \<rparr>)"

text \<open>\<^verbatim>\<open>addSecret\<close>, the same in both revisions that have it.\<close>

definition addSecret :: "GithubRepository \<Rightarrow> string \<Rightarrow> GithubRepository" where
  "addSecret this name =
     (let variable = new_SecretFromVariable name;
          variable' = secret_for variable (Repository (resource this)) (this_provider this)
      in this\<lparr> secrets := secrets this @ [variable'] \<rparr>)"

section \<open>GithubRepositoryFromExistingRepository\<close>

text \<open>
  In v0 and v1 the configuration is declared as
  \<^verbatim>\<open>Pick<RepositoryConfig, "team" | "webhookUrl" | "provider"> & { repositoryName }\<close>.
  The type names the properties an object must have, not the ones it may have: an object
  with further properties conforms to it, and \<^verbatim>\<open>...config\<close> hands every property of the
  object on to \<^verbatim>\<open>RepositorySetup\<close>. Of those, \<^verbatim>\<open>RepositorySetup\<close> reads
  \<^verbatim>\<open>protectMain\<close> and \<^verbatim>\<open>protectMainChecks\<close>, so the configuration object is modelled
  with these two as optional properties; both are \<open>None\<close> in an object that has the
  declared properties and no others. The constructor is the same text in both revisions;
  they differ in the \<^verbatim>\<open>RepositorySetup\<close> they call.
\<close>

definition GithubRepositoryFromExistingRepository_v0 ::
  "string \<Rightarrow> string SetupFields WithRepositoryName
     \<Rightarrow> DataGithubRepositoryConfig RepositoryConstruct" where
  "GithubRepositoryFromExistingRepository_v0 name cfg =
     (let resource' = new ''repo''
            \<lparr> data_name = repositoryName cfg, data_provider = provider (config cfg) \<rparr>
      in \<lparr> this_id = name, resource = resource',
           repository_setup = RepositorySetup_v0 ''repository-setup''
             \<lparr> team = team (config cfg), webhookUrl = webhookUrl (config cfg),
               provider = provider (config cfg),
               protectMain = protectMain (config cfg),
               protectMainChecks = protectMainChecks (config cfg),
               repository = DataGithubRepository resource' \<rparr> \<rparr>)"

definition GithubRepositoryFromExistingRepository_v1 ::
  "string \<Rightarrow> string SetupFields WithRepositoryName
     \<Rightarrow> DataGithubRepositoryConfig RepositoryConstruct" where
  "GithubRepositoryFromExistingRepository_v1 name cfg =
     (let resource' = new ''repo''
            \<lparr> data_name = repositoryName cfg, data_provider = provider (config cfg) \<rparr>
      in \<lparr> this_id = name, resource = resource',
           repository_setup = RepositorySetup_v1 ''repository-setup''
             \<lparr> team = team (config cfg), webhookUrl = webhookUrl (config cfg),
               provider = provider (config cfg),
               protectMain = protectMain (config cfg),
               protectMainChecks = protectMainChecks (config cfg),
               repository = DataGithubRepository resource' \<rparr> \<rparr>)"

text \<open>In v2 the configuration is \<^verbatim>\<open>RepositoryConfig & { repositoryName }\<close>.\<close>

definition GithubRepositoryFromExistingRepository_v2 ::
  "string \<Rightarrow> string option RepositoryConfig WithRepositoryName
     \<Rightarrow> DataGithubRepositoryConfig RepositoryConstruct" where
  "GithubRepositoryFromExistingRepository_v2 name cfg =
     (let resource' = new ''repo''
            \<lparr> data_name = repositoryName cfg, data_provider = provider (config cfg) \<rparr>
      in \<lparr> this_id = name, resource = resource',
           repository_setup = RepositorySetup_v2 ''repository-setup''
             \<lparr> team = team (config cfg), webhookUrl = webhookUrl (config cfg),
               provider = provider (config cfg),
               protectMain = protectMain (config cfg),
               protectMainChecks = protectMainChecks (config cfg),
               repository = DataGithubRepository resource' \<rparr> \<rparr>)"

section \<open>Observations on the declaration graph\<close>

text \<open>The repository a declaration points at.\<close>

fun references :: "resource \<Rightarrow> string" where
  "references (IssueLabel c) = il_repository c"
| "references (BranchProtection c) = repositoryId c"
| "references (TeamRepository c) = tr_repository c"
| "references (RepositoryWebhook c) = wh_repository c"
| "references (RepositoryFile c) = rf_repository c"

text \<open>The declarations of a construct, without their ids.\<close>

definition declarations :: "RepositorySetup \<Rightarrow> resource list" where
  "declarations s = map props (children s)"

text \<open>The resource class of a declaration.\<close>

datatype kind = KIssueLabel | KBranchProtection | KTeamRepository | KRepositoryWebhook
  | KRepositoryFile

fun kind_of :: "resource \<Rightarrow> kind" where
  "kind_of (IssueLabel c) = KIssueLabel"
| "kind_of (BranchProtection c) = KBranchProtection"
| "kind_of (TeamRepository c) = KTeamRepository"
| "kind_of (RepositoryWebhook c) = KRepositoryWebhook"
| "kind_of (RepositoryFile c) = KRepositoryFile"

section \<open>The deferred count of the CODEOWNERS file\<close>

text \<open>
  The text in \<^verbatim>\<open>count\<close> is an expression of the provisioning runtime's language. Its
  structure, as written in the template literal of the source:
  \<^verbatim>\<open>regex("-go", NAME) == "-go" ? 1 : 0\<close>.
\<close>

datatype hcl =
    Str string
  | Num nat
  | NameOf RepositoryHandle
  | Regex hcl hcl
  | Equal hcl hcl
  | Cond hcl hcl hcl

definition codeowners_gate :: "RepositoryHandle \<Rightarrow> hcl" where
  "codeowners_gate repo =
     Cond (Equal (Regex (Str ''-go'') (NameOf repo)) (Str ''-go'')) (Num 1) (Num 0)"

text \<open>The concrete syntax of an expression.\<close>

function decimal :: "nat \<Rightarrow> string" where
  "decimal n =
     (if n < 10 then [''0123456789'' ! n]
      else decimal (n div 10) @ [''0123456789'' ! (n mod 10)])"
  by pat_completeness auto
termination
  by (relation "measure id") auto

fun render :: "hcl \<Rightarrow> string" where
  "render (Str s) = [CHR 0x22] @ s @ [CHR 0x22]"
| "render (Num n) = decimal n"
| "render (NameOf h) = name_reference h"
| "render (Regex p s) = ''regex('' @ render p @ '', '' @ render s @ '')''"
| "render (Equal a b) = render a @ '' == '' @ render b"
| "render (Cond c a b) = render c @ '' ? '' @ render a @ '' : '' @ render b"

text \<open>
  What the runtime makes of such an expression. This is the runtime's behaviour, not code
  of the repository; it is written down here as the runtime documents it, so that the
  gate the source relies on can be run:
  \<^item> the reference to the repository's name resolves to that name;
  \<^item> \<^verbatim>\<open>regex(pattern, string)\<close> searches the string for the pattern anywhere in it. For a
    pattern without groups it returns the matched substring, and it raises an error
    when nothing matches. Only patterns made of plain characters are covered (the match
    is then the pattern itself); any other pattern is answered \<open>Unsupported\<close>;
  \<^item> \<^verbatim>\<open>==\<close> compares two values, \<^verbatim>\<open>c ? a : b\<close> chooses by a boolean, and an error in
    an operand is the error of the whole.
\<close>

datatype "value" = VStr string | VNum nat | VBool bool

datatype eval_error = NoMatch | Unsupported | TypeError

fun occurs :: "string \<Rightarrow> string \<Rightarrow> bool" where
  "occurs p [] = (p = [])"
| "occurs p (c # cs) = (take (length p) (c # cs) = p \<or> occurs p cs)"

definition literal_pattern :: "string \<Rightarrow> bool" where
  "literal_pattern p = list_all (\<lambda>c. c \<notin> set (CHR 0x5C # ''.+*?()|[]{}^$'')) p"

definition regex :: "string \<Rightarrow> string \<Rightarrow> eval_error + value" where
  "regex pat str =
     (if \<not> literal_pattern pat then Inl Unsupported
      else if occurs pat str then Inr (VStr pat)
      else Inl NoMatch)"

fun eval :: "hcl \<Rightarrow> eval_error + value" where
  "eval (Str s) = Inr (VStr s)"
| "eval (Num n) = Inr (VNum n)"
| "eval (NameOf h) = Inr (VStr (repository_name h))"
| "eval (Regex p s) =
     (case eval p of
        Inl e \<Rightarrow> Inl e
      | Inr (VStr pat) \<Rightarrow>
          (case eval s of
             Inl e \<Rightarrow> Inl e
           | Inr (VStr str) \<Rightarrow> regex pat str
           | Inr _ \<Rightarrow> Inl TypeError)
      | Inr _ \<Rightarrow> Inl TypeError)"
| "eval (Equal a b) =
     (case eval a of
        Inl e \<Rightarrow> Inl e
      | Inr x \<Rightarrow> (case eval b of Inl e \<Rightarrow> Inl e | Inr y \<Rightarrow> Inr (VBool (x = y))))"
| "eval (Cond c a b) =
     (case eval c of
        Inl e \<Rightarrow> Inl e
      | Inr (VBool t) \<Rightarrow> (if t then eval a else eval b)
      | Inr _ \<Rightarrow> Inl TypeError)"

section \<open>The declarations of each revision, unfolded\<close>

lemma declarations_v0:
  "declarations (RepositorySetup_v0 n cfg) =
     [automerge_label (repository cfg) (provider cfg)]
     @ (if default_to False (protectMain cfg)
        then [main_protection_v1 (repository cfg)
                (default_to [''build''] (protectMainChecks cfg)) (provider cfg)]
        else [])
     @ [managing_team (repository cfg) (team cfg) (provider cfg),
        slack_webhook (repository cfg) (webhookUrl cfg) (provider cfg)]"
  by (simp add: declarations_def RepositorySetup_v0_def Let_def new_def)

lemma declarations_v1:
  "declarations (RepositorySetup_v1 n cfg) =
     [automerge_label (repository cfg) (provider cfg)]
     @ (if default_to False (protectMain cfg)
        then [main_protection_v1 (repository cfg)
                (default_to [''build''] (protectMainChecks cfg)) (provider cfg)]
        else [])
     @ [managing_team (repository cfg) (team cfg) (provider cfg),
        slack_webhook (repository cfg) (webhookUrl cfg) (provider cfg),
        codeowners (repository cfg)]"
  by (simp add: declarations_def RepositorySetup_v1_def Let_def new_def)

lemma declarations_v2:
  "declarations (RepositorySetup_v2 n cfg) =
     [automerge_label (repository cfg) (provider cfg),
      no_auto_close_label (repository cfg) (provider cfg),
      auto_approve_label (repository cfg) (provider cfg)]
     @ (if default_to False (protectMain cfg)
        then [main_protection_v2 (repository cfg)
                (default_to [''build'', ''license/cla''] (protectMainChecks cfg)) (provider cfg)]
        else [])
     @ [managing_team (repository cfg) (team cfg) (provider cfg)]
     @ (if truthy (webhookUrl cfg)
        then [slack_webhook (repository cfg) (the (webhookUrl cfg)) (provider cfg)]
        else [])"
  by (simp add: declarations_def RepositorySetup_v2_def Let_def new_def setOldId_def
      split: option.split)

lemmas literal_defs = automerge_label_def no_auto_close_label_def auto_approve_label_def
      main_protection_v1_def main_protection_v2_def managing_team_def slack_webhook_def codeowners_def

lemma references_literals:
  "references (automerge_label r p) = repository_name r"
  "references (no_auto_close_label r p) = repository_name r"
  "references (auto_approve_label r p) = repository_name r"
  "references (main_protection_v1 r cs p) = repository_name r"
  "references (main_protection_v2 r cs p) = repository_name r"
  "references (managing_team r t p) = repository_name r"
  "references (slack_webhook r u p) = repository_name r"
  "references (codeowners r) = repository_name r"
  by (simp_all add: literal_defs)

lemma kind_of_literals:
  "kind_of (automerge_label r p) = KIssueLabel"
  "kind_of (no_auto_close_label r p) = KIssueLabel"
  "kind_of (auto_approve_label r p) = KIssueLabel"
  "kind_of (main_protection_v1 r cs p) = KBranchProtection"
  "kind_of (main_protection_v2 r cs p) = KBranchProtection"
  "kind_of (managing_team r t p) = KTeamRepository"
  "kind_of (slack_webhook r u p) = KRepositoryWebhook"
  "kind_of (codeowners r) = KRepositoryFile"
  by (simp_all add: literal_defs)

lemma resource_v1:
  "props (resource (GithubRepository_v1 n cfg)) =
     \<lparr> repo_name = n, repo_description = default_to defaultDescription (description cfg),
       archiveOnDestroy = None,
       visibility = ''public'', homepageUrl = ''https://cdk.tf'',
       hasIssues = True, hasWiki = False, autoInit = True, hasProjects = False,
       deleteBranchOnMerge = True,
       allowAutoMerge = None, allowUpdateBranch = None,
       squashMergeCommitMessage = None, squashMergeCommitTitle = None,
       vulnerabilityAlerts = None,
       repo_topics = default_to defaultTopics (topics cfg), repo_provider = provider cfg \<rparr>"
  by (simp add: GithubRepository_v1_def Let_def new_def)

lemma resource_v2:
  "props (resource (GithubRepository_v2 n cfg)) =
     \<lparr> repo_name = n, repo_description = default_to defaultDescription (description cfg),
       archiveOnDestroy = Some True,
       visibility = ''public'', homepageUrl = ''https://cdk.tf'',
       hasIssues = (\<not> endsWith n ''-go''),
       hasWiki = False, autoInit = True, hasProjects = False,
       deleteBranchOnMerge = True,
       allowAutoMerge = Some True, allowUpdateBranch = Some True,
       squashMergeCommitMessage = Some ''PR_BODY'',
       squashMergeCommitTitle = Some ''PR_TITLE'',
       vulnerabilityAlerts = Some True,
       repo_topics = default_to defaultTopics (topics cfg), repo_provider = provider cfg \<rparr>"
  by (simp add: GithubRepository_v2_def Let_def new_def setOldId_def)

section \<open>The gate, evaluated\<close>

lemma codeowners_count_renders:
  "codeowners_count repo = ''${'' @ render (codeowners_gate repo) @ ''}''"
  by (simp add: codeowners_count_def codeowners_gate_def)

lemma literal_go: "literal_pattern ''-go''"
  by (simp add: literal_pattern_def)

lemma gate_value:
  "eval (codeowners_gate h) =
     (if occurs ''-go'' (repository_name h) then Inr (VNum 1) else Inl NoMatch)"
  by (simp add: codeowners_gate_def regex_def literal_go)

lemma occurs_self: "occurs t t"
  by (cases t) simp_all

lemma occurs_append: "occurs t (p @ t)"
  by (induction p) (simp_all add: occurs_self)

lemma endsWith_occurs: "endsWith s t \<Longrightarrow> occurs t s"
proof -
  assume "endsWith s t"
  then have "s = take (length s - length t) s @ t"
    by (metis append_take_drop_id endsWith_def)
  then show ?thesis
    by (metis occurs_append)
qed

text \<open>
  For a name that ends in \<^verbatim>\<open>-go\<close> the count is 1. For any name, the count is 1 or the
  evaluation fails: the branch \<^verbatim>\<open>: 0\<close> is never taken.
\<close>

lemma gate_for_go_names:
  "endsWith (repository_name h) ''-go'' \<Longrightarrow> eval (codeowners_gate h) = Inr (VNum 1)"
  by (simp add: gate_value endsWith_occurs)

lemma gate_never_zero: "eval (codeowners_gate h) \<noteq> Inr (VNum 0)"
  by (simp add: gate_value)

lemma codeowners_declared_once:
  "filter is_RepositoryFile (declarations (RepositorySetup_v1 n cfg)) =
     [RepositoryFile
        \<lparr> rf_repository = repository_name (repository cfg),
          rf_count = codeowners_count (repository cfg),
          rf_file = ''.github/CODEOWNERS'',
          rf_content =
            ''# These owners will be the default owners for everything in '' @ [CHR 0x0A] @
            ''# the repo. Unless a later match takes precedence, '' @ [CHR 0x0A] @
            ''# they will be requested for review when someone opens a '' @ [CHR 0x0A] @
            ''# pull request.'' @ [CHR 0x0A] @
            ''*       @cdktf/tf-cdk-team'' \<rparr>]"
  by (simp add: declarations_v1 literal_defs codeowners_content_def)

section \<open>Properties\<close>

text \<open>
  Claim C1. The claim: in v1 the CODEOWNERS file is declared once, gated by a count that
  the runtime evaluates, which comes to one file for a repository whose name ends in
  \<^verbatim>\<open>-go\<close> and to none ("0") for any other. The source says the same in its comment
  (\<^verbatim>\<open>Only for go provider repositories\<close>), but the expression it writes does not do it.
  For the looked-up repository \<^verbatim>\<open>cdktf-provider-google\<close>, whose name does not end in
  \<^verbatim>\<open>-go\<close>, the setup declares the file with the count text below, that text is the gate
  expression on this handle, and the gate comes to 1, since \<^verbatim>\<open>-go\<close> occurs inside
  \<^verbatim>\<open>-google\<close>. For \<^verbatim>\<open>cdktf-provider-aws\<close> the gate does not come to 0 either: the search
  finds nothing and the evaluation fails.
\<close>

theorem codeowners_gate_misfires:
  \<open>filter is_RepositoryFile (declarations (RepositorySetup_v1 ''repository-setup''
        \<lparr> team = \<lparr> ITeam_id = ''42'' \<rparr>, webhookUrl = ''https://hooks.example/x'',
          provider = GithubProvider ''github'', protectMain = None, protectMainChecks = None,
          repository = DataGithubRepository (new ''repo''
            \<lparr> data_name = ''cdktf-provider-google'',
              data_provider = GithubProvider ''github'' \<rparr>) \<rparr>)) =
     [RepositoryFile
        \<lparr> rf_repository = ''cdktf-provider-google'',
          rf_count =
            ''${regex("-go", ${data.github_repository.repo.name}) == "-go" ? 1 : 0}'',
          rf_file = ''.github/CODEOWNERS'',
          rf_content = codeowners_content \<rparr>]
   \<and> ''${regex("-go", ${data.github_repository.repo.name}) == "-go" ? 1 : 0}'' =
       ''${'' @ render (codeowners_gate (DataGithubRepository (new ''repo''
          \<lparr> data_name = ''cdktf-provider-google'',
            data_provider = GithubProvider ''github'' \<rparr>))) @ ''}''
   \<and> \<not> endsWith ''cdktf-provider-google'' ''-go''
   \<and> eval (codeowners_gate (DataGithubRepository (new ''repo''
          \<lparr> data_name = ''cdktf-provider-google'',
            data_provider = GithubProvider ''github'' \<rparr>))) = Inr (VNum 1)
   \<and> \<not> endsWith ''cdktf-provider-aws'' ''-go''
   \<and> eval (codeowners_gate (DataGithubRepository (new ''repo''
          \<lparr> data_name = ''cdktf-provider-aws'',
            data_provider = GithubProvider ''github'' \<rparr>))) = Inl NoMatch\<close>
proof -
  have declared: \<open>filter is_RepositoryFile (declarations (RepositorySetup_v1 ''repository-setup''
        \<lparr> team = \<lparr> ITeam_id = ''42'' \<rparr>, webhookUrl = ''https://hooks.example/x'',
          provider = GithubProvider ''github'', protectMain = None, protectMainChecks = None,
          repository = DataGithubRepository (new ''repo''
            \<lparr> data_name = ''cdktf-provider-google'',
              data_provider = GithubProvider ''github'' \<rparr>) \<rparr>)) =
     [RepositoryFile
        \<lparr> rf_repository = ''cdktf-provider-google'',
          rf_count =
            ''${regex("-go", ${data.github_repository.repo.name}) == "-go" ? 1 : 0}'',
          rf_file = ''.github/CODEOWNERS'',
          rf_content = codeowners_content \<rparr>]\<close>
    by (simp add: declarations_v1 literal_defs codeowners_count_def new_def)
  have rendered: \<open>''${regex("-go", ${data.github_repository.repo.name}) == "-go" ? 1 : 0}'' =
       ''${'' @ render (codeowners_gate (DataGithubRepository (new ''repo''
          \<lparr> data_name = ''cdktf-provider-google'',
            data_provider = GithubProvider ''github'' \<rparr>))) @ ''}''\<close>
    by (simp add: codeowners_gate_def new_def)
  have google: "\<not> endsWith ''cdktf-provider-google'' ''-go''"
    by (simp add: endsWith_def)
  have one: "eval (codeowners_gate (DataGithubRepository (new ''repo''
          \<lparr> data_name = ''cdktf-provider-google'',
            data_provider = GithubProvider ''github'' \<rparr>))) = Inr (VNum 1)"
    by (simp add: gate_value new_def)
  have aws: "\<not> endsWith ''cdktf-provider-aws'' ''-go''"
    by (simp add: endsWith_def)
  have fails: "eval (codeowners_gate (DataGithubRepository (new ''repo''
          \<lparr> data_name = ''cdktf-provider-aws'',
            data_provider = GithubProvider ''github'' \<rparr>))) = Inl NoMatch"
    by (simp add: gate_value new_def)
  from declared rendered google one aws fails show ?thesis
    by blast
qed

text \<open>
  Claim C2. In the later revision (v2) the webhook declarations of a \<^verbatim>\<open>RepositorySetup\<close>
  are: none when \<^verbatim>\<open>webhookUrl\<close> is absent or empty, and otherwise exactly one, which
  posts JSON to that URL and subscribes to the single event \<^verbatim>\<open>issues\<close>. In v1 (and v0)
  there is always exactly one, for the mandatory URL. The constructor is a total function:
  leaving the webhook out is a result, not a failure.
\<close>

theorem webhook_only_with_url:
  "filter is_RepositoryWebhook (declarations (RepositorySetup_v2 n cfg)) =
     (if truthy (webhookUrl cfg)
      then [RepositoryWebhook
              \<lparr> wh_repository = repository_name (repository cfg),
                configuration = \<lparr> url = the (webhookUrl cfg), contentType = ''json'' \<rparr>,
                events = [''issues''], wh_provider = provider cfg \<rparr>]
      else [])
   \<and> filter is_RepositoryWebhook (declarations (RepositorySetup_v1 n cfg1)) =
       [RepositoryWebhook
          \<lparr> wh_repository = repository_name (repository cfg1),
            configuration = \<lparr> url = webhookUrl cfg1, contentType = ''json'' \<rparr>,
            events = [''issues''], wh_provider = provider cfg1 \<rparr>]
   \<and> filter is_RepositoryWebhook (declarations (RepositorySetup_v0 n cfg1)) =
       [RepositoryWebhook
          \<lparr> wh_repository = repository_name (repository cfg1),
            configuration = \<lparr> url = webhookUrl cfg1, contentType = ''json'' \<rparr>,
            events = [''issues''], wh_provider = provider cfg1 \<rparr>]"
  by (simp add: declarations_v0 declarations_v1 declarations_v2 literal_defs)

text \<open>Claim C2 at an empty URL, an absent URL and a real one.\<close>

theorem webhook_only_with_url_witness:
  "filter is_RepositoryWebhook (declarations (RepositorySetup_v2 ''repository-setup''
      \<lparr> team = \<lparr> ITeam_id = ''42'' \<rparr>, webhookUrl = Some [],
        provider = GithubProvider ''github'', protectMain = None, protectMainChecks = None,
        repository = DataGithubRepository (new ''repo''
          \<lparr> data_name = ''cdktf-provider-aws'',
            data_provider = GithubProvider ''github'' \<rparr>) \<rparr>)) = []
   \<and> filter is_RepositoryWebhook (declarations (RepositorySetup_v2 ''repository-setup''
      \<lparr> team = \<lparr> ITeam_id = ''42'' \<rparr>, webhookUrl = None,
        provider = GithubProvider ''github'', protectMain = None, protectMainChecks = None,
        repository = DataGithubRepository (new ''repo''
          \<lparr> data_name = ''cdktf-provider-aws'',
            data_provider = GithubProvider ''github'' \<rparr>) \<rparr>)) = []
   \<and> filter is_RepositoryWebhook (declarations (RepositorySetup_v2 ''repository-setup''
      \<lparr> team = \<lparr> ITeam_id = ''42'' \<rparr>, webhookUrl = Some ''https://hooks.example/x'',
        provider = GithubProvider ''github'', protectMain = None, protectMainChecks = None,
        repository = DataGithubRepository (new ''repo''
          \<lparr> data_name = ''cdktf-provider-aws'',
            data_provider = GithubProvider ''github'' \<rparr>) \<rparr>)) =
      [RepositoryWebhook
         \<lparr> wh_repository = ''cdktf-provider-aws'',
           configuration = \<lparr> url = ''https://hooks.example/x'', contentType = ''json'' \<rparr>,
           events = [''issues''], wh_provider = GithubProvider ''github'' \<rparr>]"
  using
    webhook_only_with_url [of "''repository-setup''"
      "\<lparr> team = \<lparr> ITeam_id = ''42'' \<rparr>, webhookUrl = Some [],
        provider = GithubProvider ''github'', protectMain = None, protectMainChecks = None,
        repository = DataGithubRepository (new ''repo''
          \<lparr> data_name = ''cdktf-provider-aws'',
            data_provider = GithubProvider ''github'' \<rparr>) \<rparr>"]
    webhook_only_with_url [of "''repository-setup''"
      "\<lparr> team = \<lparr> ITeam_id = ''42'' \<rparr>, webhookUrl = None,
        provider = GithubProvider ''github'', protectMain = None, protectMainChecks = None,
        repository = DataGithubRepository (new ''repo''
          \<lparr> data_name = ''cdktf-provider-aws'',
            data_provider = GithubProvider ''github'' \<rparr>) \<rparr>"]
    webhook_only_with_url [of "''repository-setup''"
      "\<lparr> team = \<lparr> ITeam_id = ''42'' \<rparr>, webhookUrl = Some ''https://hooks.example/x'',
        provider = GithubProvider ''github'', protectMain = None, protectMainChecks = None,
        repository = DataGithubRepository (new ''repo''
          \<lparr> data_name = ''cdktf-provider-aws'',
            data_provider = GithubProvider ''github'' \<rparr>) \<rparr>"]
  by (simp add: new_def)

text \<open>
  Claim C3. With \<^verbatim>\<open>protectMain\<close> true and \<^verbatim>\<open>protectMainChecks\<close> absent, the setup
  declares one branch protection: pattern \<^verbatim>\<open>main\<close>, on the repository's name, admins
  included, deletions and force pushes refused, strict status checks on the revision's
  default list (\<^verbatim>\<open>build\<close> in v0 and v1; \<^verbatim>\<open>build\<close> and \<^verbatim>\<open>license/cla\<close> in v2). In v2 it
  also asks for one approving review, without code-owner review, and for resolved
  conversations; v0 and v1 pass neither attribute.
\<close>

theorem default_branch_protection:
  "(protectMain c0 = Some True \<and> protectMainChecks c0 = None \<longrightarrow>
      filter is_BranchProtection (declarations (RepositorySetup_v0 n c0)) =
        [BranchProtection
           \<lparr> pattern = ''main'', repositoryId = repository_name (repository c0),
             enforceAdmins = True, allowsDeletions = False, allowsForcePushes = False,
             requiredPullRequestReviews = None, requireConversationResolution = None,
             requiredStatusChecks = [\<lparr> strict = True, contexts = [''build''] \<rparr>],
             bp_provider = provider c0 \<rparr>])
   \<and> (protectMain c1 = Some True \<and> protectMainChecks c1 = None \<longrightarrow>
      filter is_BranchProtection (declarations (RepositorySetup_v1 n c1)) =
        [BranchProtection
           \<lparr> pattern = ''main'', repositoryId = repository_name (repository c1),
             enforceAdmins = True, allowsDeletions = False, allowsForcePushes = False,
             requiredPullRequestReviews = None, requireConversationResolution = None,
             requiredStatusChecks = [\<lparr> strict = True, contexts = [''build''] \<rparr>],
             bp_provider = provider c1 \<rparr>])
   \<and> (protectMain c2 = Some True \<and> protectMainChecks c2 = None \<longrightarrow>
      filter is_BranchProtection (declarations (RepositorySetup_v2 n c2)) =
        [BranchProtection
           \<lparr> pattern = ''main'', repositoryId = repository_name (repository c2),
             enforceAdmins = True, allowsDeletions = False, allowsForcePushes = False,
             requiredPullRequestReviews =
               Some [\<lparr> requiredApprovingReviewCount = 1, requireCodeOwnerReviews = False,
                       dismissStaleReviews = False \<rparr>],
             requireConversationResolution = Some True,
             requiredStatusChecks =
               [\<lparr> strict = True, contexts = [''build'', ''license/cla''] \<rparr>],
             bp_provider = provider c2 \<rparr>])"
  by (simp add: declarations_v0 declarations_v1 declarations_v2 literal_defs)

text \<open>Claim C3 at a configuration with \<^verbatim>\<open>protectMain\<close> set, in each revision.\<close>

theorem default_branch_protection_witness:
  "filter is_BranchProtection (declarations (RepositorySetup_v1 ''repository-setup''
      \<lparr> team = \<lparr> ITeam_id = ''42'' \<rparr>, webhookUrl = ''https://hooks.example/x'',
        provider = GithubProvider ''github'',
        protectMain = Some True, protectMainChecks = None,
        repository = DataGithubRepository (new ''repo''
          \<lparr> data_name = ''cdktf-provider-aws'',
            data_provider = GithubProvider ''github'' \<rparr>) \<rparr>)) =
     [BranchProtection
        \<lparr> pattern = ''main'', repositoryId = ''cdktf-provider-aws'',
          enforceAdmins = True, allowsDeletions = False, allowsForcePushes = False,
          requiredPullRequestReviews = None, requireConversationResolution = None,
          requiredStatusChecks = [\<lparr> strict = True, contexts = [''build''] \<rparr>],
          bp_provider = GithubProvider ''github'' \<rparr>]
   \<and> filter is_BranchProtection (declarations (RepositorySetup_v0 ''repository-setup''
      \<lparr> team = \<lparr> ITeam_id = ''42'' \<rparr>, webhookUrl = ''https://hooks.example/x'',
        provider = GithubProvider ''github'',
        protectMain = Some True, protectMainChecks = None,
        repository = DataGithubRepository (new ''repo''
          \<lparr> data_name = ''cdktf-provider-aws'',
            data_provider = GithubProvider ''github'' \<rparr>) \<rparr>)) =
     [BranchProtection
        \<lparr> pattern = ''main'', repositoryId = ''cdktf-provider-aws'',
          enforceAdmins = True, allowsDeletions = False, allowsForcePushes = False,
          requiredPullRequestReviews = None, requireConversationResolution = None,
          requiredStatusChecks = [\<lparr> strict = True, contexts = [''build''] \<rparr>],
          bp_provider = GithubProvider ''github'' \<rparr>]
   \<and> filter is_BranchProtection (declarations (RepositorySetup_v2 ''repository-setup''
      \<lparr> team = \<lparr> ITeam_id = ''42'' \<rparr>, webhookUrl = None,
        provider = GithubProvider ''github'',
        protectMain = Some True, protectMainChecks = None,
        repository = DataGithubRepository (new ''repo''
          \<lparr> data_name = ''cdktf-provider-aws'',
            data_provider = GithubProvider ''github'' \<rparr>) \<rparr>)) =
     [BranchProtection
        \<lparr> pattern = ''main'', repositoryId = ''cdktf-provider-aws'',
          enforceAdmins = True, allowsDeletions = False, allowsForcePushes = False,
          requiredPullRequestReviews =
            Some [\<lparr> requiredApprovingReviewCount = 1, requireCodeOwnerReviews = False,
                    dismissStaleReviews = False \<rparr>],
          requireConversationResolution = Some True,
          requiredStatusChecks =
            [\<lparr> strict = True, contexts = [''build'', ''license/cla''] \<rparr>],
          bp_provider = GithubProvider ''github'' \<rparr>]"
  using default_branch_protection [of
      "\<lparr> team = \<lparr> ITeam_id = ''42'' \<rparr>, webhookUrl = ''https://hooks.example/x'',
        provider = GithubProvider ''github'',
        protectMain = Some True, protectMainChecks = None,
        repository = DataGithubRepository (new ''repo''
          \<lparr> data_name = ''cdktf-provider-aws'',
            data_provider = GithubProvider ''github'' \<rparr>) \<rparr>"
      "''repository-setup''"
      "\<lparr> team = \<lparr> ITeam_id = ''42'' \<rparr>, webhookUrl = ''https://hooks.example/x'',
        provider = GithubProvider ''github'',
        protectMain = Some True, protectMainChecks = None,
        repository = DataGithubRepository (new ''repo''
          \<lparr> data_name = ''cdktf-provider-aws'',
            data_provider = GithubProvider ''github'' \<rparr>) \<rparr>"
      "\<lparr> team = \<lparr> ITeam_id = ''42'' \<rparr>, webhookUrl = None,
        provider = GithubProvider ''github'',
        protectMain = Some True, protectMainChecks = None,
        repository = DataGithubRepository (new ''repo''
          \<lparr> data_name = ''cdktf-provider-aws'',
            data_provider = GithubProvider ''github'' \<rparr>) \<rparr>"]
  by (simp add: new_def)

text \<open>
  Claim C4. With \<^verbatim>\<open>protectMain\<close> false or absent (the default is false), no branch
  protection is declared, in any revision; the rest of the graph is still produced.
\<close>

theorem no_protection_unless_asked:
  "(protectMain c0 = None \<or> protectMain c0 = Some False \<longrightarrow>
      filter is_BranchProtection (declarations (RepositorySetup_v0 n c0)) = [])
   \<and> (protectMain c1 = None \<or> protectMain c1 = Some False \<longrightarrow>
      filter is_BranchProtection (declarations (RepositorySetup_v1 n c1)) = [])
   \<and> (protectMain c2 = None \<or> protectMain c2 = Some False \<longrightarrow>
      filter is_BranchProtection (declarations (RepositorySetup_v2 n c2)) = [])"
  by (auto simp add: declarations_v0 declarations_v1 declarations_v2 literal_defs)

text \<open>Claim C4 at an absent flag (v0, v2) and at an explicit false (v1).\<close>

theorem no_protection_unless_asked_witness:
  "filter is_BranchProtection (declarations (RepositorySetup_v0 ''repository-setup''
      \<lparr> team = \<lparr> ITeam_id = ''42'' \<rparr>, webhookUrl = ''https://hooks.example/x'',
        provider = GithubProvider ''github'',
        protectMain = None, protectMainChecks = Some [''build'', ''lint''],
        repository = DataGithubRepository (new ''repo''
          \<lparr> data_name = ''cdktf-provider-aws'',
            data_provider = GithubProvider ''github'' \<rparr>) \<rparr>)) = []
   \<and> filter is_BranchProtection (declarations (RepositorySetup_v1 ''repository-setup''
      \<lparr> team = \<lparr> ITeam_id = ''42'' \<rparr>, webhookUrl = ''https://hooks.example/x'',
        provider = GithubProvider ''github'',
        protectMain = Some False, protectMainChecks = None,
        repository = DataGithubRepository (new ''repo''
          \<lparr> data_name = ''cdktf-provider-aws'',
            data_provider = GithubProvider ''github'' \<rparr>) \<rparr>)) = []
   \<and> filter is_BranchProtection (declarations (RepositorySetup_v2 ''repository-setup''
      \<lparr> team = \<lparr> ITeam_id = ''42'' \<rparr>, webhookUrl = Some ''https://hooks.example/x'',
        provider = GithubProvider ''github'',
        protectMain = None, protectMainChecks = None,
        repository = DataGithubRepository (new ''repo''
          \<lparr> data_name = ''cdktf-provider-aws'',
            data_provider = GithubProvider ''github'' \<rparr>) \<rparr>)) = []"
  using no_protection_unless_asked [where n = "''repository-setup''"
      and ?c0.0 = "\<lparr> team = \<lparr> ITeam_id = ''42'' \<rparr>, webhookUrl = ''https://hooks.example/x'',
        provider = GithubProvider ''github'',
        protectMain = None, protectMainChecks = Some [''build'', ''lint''],
        repository = DataGithubRepository (new ''repo''
          \<lparr> data_name = ''cdktf-provider-aws'',
            data_provider = GithubProvider ''github'' \<rparr>) \<rparr>"
      and ?c1.0 = "\<lparr> team = \<lparr> ITeam_id = ''42'' \<rparr>, webhookUrl = ''https://hooks.example/x'',
        provider = GithubProvider ''github'',
        protectMain = Some False, protectMainChecks = None,
        repository = DataGithubRepository (new ''repo''
          \<lparr> data_name = ''cdktf-provider-aws'',
            data_provider = GithubProvider ''github'' \<rparr>) \<rparr>"
      and ?c2.0 = "\<lparr> team = \<lparr> ITeam_id = ''42'' \<rparr>, webhookUrl = Some ''https://hooks.example/x'',
        provider = GithubProvider ''github'',
        protectMain = None, protectMainChecks = None,
        repository = DataGithubRepository (new ''repo''
          \<lparr> data_name = ''cdktf-provider-aws'',
            data_provider = GithubProvider ''github'' \<rparr>) \<rparr>"]
  by (simp add: new_def)

text \<open>
  Claim C5. Every declaration a \<^verbatim>\<open>RepositorySetup\<close> emits (labels, branch protection,
  team binding, webhook, CODEOWNERS file) points at the name attribute of the repository
  handle in its configuration, in every revision.
\<close>

theorem same_repository_everywhere:
  "(\<forall>d \<in> set (declarations (RepositorySetup_v0 n c0)).
       references d = repository_name (repository c0))
   \<and> (\<forall>d \<in> set (declarations (RepositorySetup_v1 n c1)).
       references d = repository_name (repository c1))
   \<and> (\<forall>d \<in> set (declarations (RepositorySetup_v2 n c2)).
       references d = repository_name (repository c2))"
  by (auto simp add: declarations_v0 declarations_v1 declarations_v2 references_literals)

text \<open>
  Claim C5 at configurations that emit every kind of declaration (four, five and six
  declarations in v0, v1 and v2).
\<close>

theorem same_repository_everywhere_witness:
  "map references (declarations (RepositorySetup_v0 ''repository-setup''
      \<lparr> team = \<lparr> ITeam_id = ''42'' \<rparr>, webhookUrl = ''https://hooks.example/x'',
        provider = GithubProvider ''github'',
        protectMain = Some True, protectMainChecks = None,
        repository = DataGithubRepository (new ''repo''
          \<lparr> data_name = ''cdktf-provider-aws-go'',
            data_provider = GithubProvider ''github'' \<rparr>) \<rparr>)) =
     [''cdktf-provider-aws-go'', ''cdktf-provider-aws-go'', ''cdktf-provider-aws-go'',
      ''cdktf-provider-aws-go'']
   \<and> map references (declarations (RepositorySetup_v1 ''repository-setup''
      \<lparr> team = \<lparr> ITeam_id = ''42'' \<rparr>, webhookUrl = ''https://hooks.example/x'',
        provider = GithubProvider ''github'',
        protectMain = Some True, protectMainChecks = None,
        repository = DataGithubRepository (new ''repo''
          \<lparr> data_name = ''cdktf-provider-aws-go'',
            data_provider = GithubProvider ''github'' \<rparr>) \<rparr>)) =
     [''cdktf-provider-aws-go'', ''cdktf-provider-aws-go'', ''cdktf-provider-aws-go'',
      ''cdktf-provider-aws-go'', ''cdktf-provider-aws-go'']
   \<and> map references (declarations (RepositorySetup_v2 ''repository-setup''
      \<lparr> team = \<lparr> ITeam_id = ''42'' \<rparr>, webhookUrl = Some ''https://hooks.example/x'',
        provider = GithubProvider ''github'',
        protectMain = Some True, protectMainChecks = None,
        repository = DataGithubRepository (new ''repo''
          \<lparr> data_name = ''cdktf-provider-aws-go'',
            data_provider = GithubProvider ''github'' \<rparr>) \<rparr>)) =
     [''cdktf-provider-aws-go'', ''cdktf-provider-aws-go'', ''cdktf-provider-aws-go'',
      ''cdktf-provider-aws-go'', ''cdktf-provider-aws-go'', ''cdktf-provider-aws-go'']"
  using same_repository_everywhere [where n = "''repository-setup''"
      and ?c0.0 = "\<lparr> team = \<lparr> ITeam_id = ''42'' \<rparr>, webhookUrl = ''https://hooks.example/x'',
        provider = GithubProvider ''github'',
        protectMain = Some True, protectMainChecks = None,
        repository = DataGithubRepository (new ''repo''
          \<lparr> data_name = ''cdktf-provider-aws-go'',
            data_provider = GithubProvider ''github'' \<rparr>) \<rparr>"
      and ?c1.0 = "\<lparr> team = \<lparr> ITeam_id = ''42'' \<rparr>, webhookUrl = ''https://hooks.example/x'',
        provider = GithubProvider ''github'',
        protectMain = Some True, protectMainChecks = None,
        repository = DataGithubRepository (new ''repo''
          \<lparr> data_name = ''cdktf-provider-aws-go'',
            data_provider = GithubProvider ''github'' \<rparr>) \<rparr>"
      and ?c2.0 = "\<lparr> team = \<lparr> ITeam_id = ''42'' \<rparr>, webhookUrl = Some ''https://hooks.example/x'',
        provider = GithubProvider ''github'',
        protectMain = Some True, protectMainChecks = None,
        repository = DataGithubRepository (new ''repo''
          \<lparr> data_name = ''cdktf-provider-aws-go'',
            data_provider = GithubProvider ''github'' \<rparr>) \<rparr>"]
  by (simp add: new_def declarations_v0 declarations_v1 declarations_v2)

text \<open>
  Claim C6. The repository declared by \<^verbatim>\<open>GithubRepository\<close> has the six default
  topics, in their order, when the configuration has no \<^verbatim>\<open>topics\<close>, and the supplied
  list unchanged when it has.
\<close>

theorem topics_default:
  "(topics c1 = None \<longrightarrow>
      repo_topics (props (resource (GithubRepository_v1 n c1))) =
        [''cdktf'', ''terraform'', ''terraform-cdk'', ''cdk'', ''provider'',
         ''pre-built-provider''])
   \<and> (topics c1 = Some ts \<longrightarrow>
      repo_topics (props (resource (GithubRepository_v1 n c1))) = ts)
   \<and> (topics c2 = None \<longrightarrow>
      repo_topics (props (resource (GithubRepository_v2 n c2))) =
        [''cdktf'', ''terraform'', ''terraform-cdk'', ''cdk'', ''provider'',
         ''pre-built-provider''])
   \<and> (topics c2 = Some ts \<longrightarrow>
      repo_topics (props (resource (GithubRepository_v2 n c2))) = ts)"
  by (simp add: resource_v1 resource_v2 defaultTopics_def)

text \<open>Claim C6 without topics and with the topics \<^verbatim>\<open>aws\<close>, \<^verbatim>\<open>cdktf\<close>.\<close>

theorem topics_default_witness:
  "repo_topics (props (resource (GithubRepository_v1 ''cdktf-provider-aws''
      \<lparr> team = \<lparr> ITeam_id = ''42'' \<rparr>, webhookUrl = ''https://hooks.example/x'',
        provider = GithubProvider ''github'',
        protectMain = None, protectMainChecks = None,
        description = None, topics = None \<rparr>))) =
     [''cdktf'', ''terraform'', ''terraform-cdk'', ''cdk'', ''provider'', ''pre-built-provider'']
   \<and> repo_topics (props (resource (GithubRepository_v2 ''cdktf-provider-aws''
      \<lparr> team = \<lparr> ITeam_id = ''42'' \<rparr>, webhookUrl = None,
        provider = GithubProvider ''github'',
        protectMain = None, protectMainChecks = None,
        description = None, topics = None \<rparr>))) =
     [''cdktf'', ''terraform'', ''terraform-cdk'', ''cdk'', ''provider'', ''pre-built-provider'']
   \<and> repo_topics (props (resource (GithubRepository_v1 ''cdktf-provider-aws''
      \<lparr> team = \<lparr> ITeam_id = ''42'' \<rparr>, webhookUrl = ''https://hooks.example/x'',
        provider = GithubProvider ''github'',
        protectMain = None, protectMainChecks = None,
        description = None, topics = Some [''aws'', ''cdktf''] \<rparr>))) = [''aws'', ''cdktf'']
   \<and> repo_topics (props (resource (GithubRepository_v2 ''cdktf-provider-aws''
      \<lparr> team = \<lparr> ITeam_id = ''42'' \<rparr>, webhookUrl = None,
        provider = GithubProvider ''github'',
        protectMain = None, protectMainChecks = None,
        description = None, topics = Some [''aws'', ''cdktf''] \<rparr>))) = [''aws'', ''cdktf'']"
  using
    topics_default [where n = "''cdktf-provider-aws''"
      and ?c1.0 = "\<lparr> team = \<lparr> ITeam_id = ''42'' \<rparr>, webhookUrl = ''https://hooks.example/x'',
        provider = GithubProvider ''github'',
        protectMain = None, protectMainChecks = None,
        description = None, topics = None \<rparr>"
      and ?c2.0 = "\<lparr> team = \<lparr> ITeam_id = ''42'' \<rparr>, webhookUrl = None,
        provider = GithubProvider ''github'',
        protectMain = None, protectMainChecks = None,
        description = None, topics = None \<rparr>"]
    topics_default [where n = "''cdktf-provider-aws''" and ts = "[''aws'', ''cdktf'']"
      and ?c1.0 = "\<lparr> team = \<lparr> ITeam_id = ''42'' \<rparr>, webhookUrl = ''https://hooks.example/x'',
        provider = GithubProvider ''github'',
        protectMain = None, protectMainChecks = None,
        description = None, topics = Some [''aws'', ''cdktf''] \<rparr>"
      and ?c2.0 = "\<lparr> team = \<lparr> ITeam_id = ''42'' \<rparr>, webhookUrl = None,
        provider = GithubProvider ''github'',
        protectMain = None, protectMainChecks = None,
        description = None, topics = Some [''aws'', ''cdktf''] \<rparr>"]
  by simp

text \<open>
  Claim C7. The repository declared by \<^verbatim>\<open>GithubRepository\<close> is public, has the
  homepage \<^verbatim>\<open>https://cdk.tf\<close>, no wiki, no projects, is auto-initialised and deletes
  merged branches. In v1 issues are always on. In v2 the repository is also archived on
  destroy, allows auto-merge and branch updates, takes squash messages from the pull
  request's body and title, has vulnerability alerts, and has issues exactly when its
  name does not end in \<^verbatim>\<open>-go\<close>.
\<close>

theorem repository_baseline:
  "(let r = props (resource (GithubRepository_v1 n c1)) in
      repo_name r = n \<and> visibility r = ''public'' \<and> homepageUrl r = ''https://cdk.tf''
      \<and> \<not> hasWiki r \<and> autoInit r \<and> \<not> hasProjects r \<and> deleteBranchOnMerge r
      \<and> hasIssues r)
   \<and> (let r = props (resource (GithubRepository_v2 n c2)) in
      repo_name r = n \<and> visibility r = ''public'' \<and> homepageUrl r = ''https://cdk.tf''
      \<and> \<not> hasWiki r \<and> autoInit r \<and> \<not> hasProjects r \<and> deleteBranchOnMerge r
      \<and> archiveOnDestroy r = Some True
      \<and> allowAutoMerge r = Some True \<and> allowUpdateBranch r = Some True
      \<and> squashMergeCommitMessage r = Some ''PR_BODY''
      \<and> squashMergeCommitTitle r = Some ''PR_TITLE''
      \<and> vulnerabilityAlerts r = Some True
      \<and> (hasIssues r \<longleftrightarrow> \<not> endsWith n ''-go''))"
  by (simp add: resource_v1 resource_v2 Let_def)

text \<open>Claim C7 at a name that ends in \<^verbatim>\<open>-go\<close> and at one that does not.\<close>

theorem repository_baseline_witness:
  "hasIssues (props (resource (GithubRepository_v2 ''cdktf-provider-aws''
      \<lparr> team = \<lparr> ITeam_id = ''42'' \<rparr>, webhookUrl = None,
        provider = GithubProvider ''github'',
        protectMain = None, protectMainChecks = None,
        description = None, topics = None \<rparr>)))
   \<and> \<not> hasIssues (props (resource (GithubRepository_v2 ''cdktf-provider-aws-go''
      \<lparr> team = \<lparr> ITeam_id = ''42'' \<rparr>, webhookUrl = None,
        provider = GithubProvider ''github'',
        protectMain = None, protectMainChecks = None,
        description = None, topics = None \<rparr>)))
   \<and> hasIssues (props (resource (GithubRepository_v1 ''cdktf-provider-aws-go''
      \<lparr> team = \<lparr> ITeam_id = ''42'' \<rparr>, webhookUrl = ''https://hooks.example/x'',
        provider = GithubProvider ''github'',
        protectMain = None, protectMainChecks = None,
        description = None, topics = None \<rparr>)))"
  using
    repository_baseline [where n = "''cdktf-provider-aws''"
      and ?c1.0 = "\<lparr> team = \<lparr> ITeam_id = ''42'' \<rparr>, webhookUrl = ''https://hooks.example/x'',
        provider = GithubProvider ''github'',
        protectMain = None, protectMainChecks = None,
        description = None, topics = None \<rparr>"
      and ?c2.0 = "\<lparr> team = \<lparr> ITeam_id = ''42'' \<rparr>, webhookUrl = None,
        provider = GithubProvider ''github'',
        protectMain = None, protectMainChecks = None,
        description = None, topics = None \<rparr>"]
    repository_baseline [where n = "''cdktf-provider-aws-go''"
      and ?c1.0 = "\<lparr> team = \<lparr> ITeam_id = ''42'' \<rparr>, webhookUrl = ''https://hooks.example/x'',
        provider = GithubProvider ''github'',
        protectMain = None, protectMainChecks = None,
        description = None, topics = None \<rparr>"
      and ?c2.0 = "\<lparr> team = \<lparr> ITeam_id = ''42'' \<rparr>, webhookUrl = None,
        provider = GithubProvider ''github'',
        protectMain = None, protectMainChecks = None,
        description = None, topics = None \<rparr>"]
  by (simp add: Let_def endsWith_def)

text \<open>
  Claim C8. The declarations of a \<^verbatim>\<open>RepositorySetup\<close> come in a fixed order: the
  label(s) (\<^verbatim>\<open>automerge\<close> in v1; \<^verbatim>\<open>automerge\<close>, \<^verbatim>\<open>no-auto-close\<close>,
  \<^verbatim>\<open>auto-approve\<close> in v2), the branch protection if asked for, the team binding that
  gives \<^verbatim>\<open>admin\<close> to \<^verbatim>\<open>team.id\<close> on the repository, the webhook (in v2 only with a
  URL), and in v1 the CODEOWNERS file last. Labels and team binding are there whatever the
  configuration. The last conjunct is the order in v0.
\<close>

theorem fixed_order:
  "map kind_of (declarations (RepositorySetup_v1 n c1)) =
     [KIssueLabel]
     @ (if protectMain c1 = Some True then [KBranchProtection] else [])
     @ [KTeamRepository, KRepositoryWebhook, KRepositoryFile]
   \<and> filter is_IssueLabel (declarations (RepositorySetup_v1 n c1)) =
     [IssueLabel \<lparr> il_color = ''5DC8DB'', il_name = ''automerge'',
        il_repository = repository_name (repository c1), il_provider = provider c1 \<rparr>]
   \<and> filter is_TeamRepository (declarations (RepositorySetup_v1 n c1)) =
     [TeamRepository \<lparr> tr_repository = repository_name (repository c1),
        teamId = ITeam_id (team c1), permission = ''admin'', tr_provider = provider c1 \<rparr>]
   \<and> map kind_of (declarations (RepositorySetup_v2 n c2)) =
     [KIssueLabel, KIssueLabel, KIssueLabel]
     @ (if protectMain c2 = Some True then [KBranchProtection] else [])
     @ [KTeamRepository]
     @ (if truthy (webhookUrl c2) then [KRepositoryWebhook] else [])
   \<and> filter is_IssueLabel (declarations (RepositorySetup_v2 n c2)) =
     [IssueLabel \<lparr> il_color = ''5DC8DB'', il_name = ''automerge'',
        il_repository = repository_name (repository c2), il_provider = provider c2 \<rparr>,
      IssueLabel \<lparr> il_color = ''EE2222'', il_name = ''no-auto-close'',
        il_repository = repository_name (repository c2), il_provider = provider c2 \<rparr>,
      IssueLabel \<lparr> il_color = ''8BF8BD'', il_name = ''auto-approve'',
        il_repository = repository_name (repository c2), il_provider = provider c2 \<rparr>]
   \<and> filter is_TeamRepository (declarations (RepositorySetup_v2 n c2)) =
     [TeamRepository \<lparr> tr_repository = repository_name (repository c2),
        teamId = ITeam_id (team c2), permission = ''admin'', tr_provider = provider c2 \<rparr>]
   \<and> map kind_of (declarations (RepositorySetup_v0 n c1)) =
     [KIssueLabel]
     @ (if protectMain c1 = Some True then [KBranchProtection] else [])
     @ [KTeamRepository, KRepositoryWebhook]"
proof -
  have p1: "default_to False (protectMain c1) = (protectMain c1 = Some True)"
    by (cases "protectMain c1") auto
  have p2: "default_to False (protectMain c2) = (protectMain c2 = Some True)"
    by (cases "protectMain c2") auto
  have k0: "map kind_of (declarations (RepositorySetup_v0 n c1)) =
     [KIssueLabel] @ (if protectMain c1 = Some True then [KBranchProtection] else [])
     @ [KTeamRepository, KRepositoryWebhook]"
    by (simp add: declarations_v0 kind_of_literals p1)
  have k1: "map kind_of (declarations (RepositorySetup_v1 n c1)) =
     [KIssueLabel] @ (if protectMain c1 = Some True then [KBranchProtection] else [])
     @ [KTeamRepository, KRepositoryWebhook, KRepositoryFile]"
    by (simp add: declarations_v1 kind_of_literals p1)
  have k2: "map kind_of (declarations (RepositorySetup_v2 n c2)) =
     [KIssueLabel, KIssueLabel, KIssueLabel]
     @ (if protectMain c2 = Some True then [KBranchProtection] else [])
     @ [KTeamRepository]
     @ (if truthy (webhookUrl c2) then [KRepositoryWebhook] else [])"
    by (simp add: declarations_v2 kind_of_literals p2)
  have l1: "filter is_IssueLabel (declarations (RepositorySetup_v1 n c1)) =
     [IssueLabel \<lparr> il_color = ''5DC8DB'', il_name = ''automerge'',
        il_repository = repository_name (repository c1), il_provider = provider c1 \<rparr>]"
    by (simp add: declarations_v1 literal_defs)
  have t1: "filter is_TeamRepository (declarations (RepositorySetup_v1 n c1)) =
     [TeamRepository \<lparr> tr_repository = repository_name (repository c1),
        teamId = ITeam_id (team c1), permission = ''admin'', tr_provider = provider c1 \<rparr>]"
    by (simp add: declarations_v1 literal_defs)
  have l2: "filter is_IssueLabel (declarations (RepositorySetup_v2 n c2)) =
     [IssueLabel \<lparr> il_color = ''5DC8DB'', il_name = ''automerge'',
        il_repository = repository_name (repository c2), il_provider = provider c2 \<rparr>,
      IssueLabel \<lparr> il_color = ''EE2222'', il_name = ''no-auto-close'',
        il_repository = repository_name (repository c2), il_provider = provider c2 \<rparr>,
      IssueLabel \<lparr> il_color = ''8BF8BD'', il_name = ''auto-approve'',
        il_repository = repository_name (repository c2), il_provider = provider c2 \<rparr>]"
    by (simp add: declarations_v2 literal_defs)
  have t2: "filter is_TeamRepository (declarations (RepositorySetup_v2 n c2)) =
     [TeamRepository \<lparr> tr_repository = repository_name (repository c2),
        teamId = ITeam_id (team c2), permission = ''admin'', tr_provider = provider c2 \<rparr>]"
    by (simp add: declarations_v2 literal_defs)
  from k0 k1 k2 l1 t1 l2 t2 show ?thesis by blast
qed

text \<open>Claim C8 at configurations with branch protection and a webhook URL.\<close>

theorem fixed_order_witness:
  "map kind_of (declarations (RepositorySetup_v1 ''repository-setup''
      \<lparr> team = \<lparr> ITeam_id = ''42'' \<rparr>, webhookUrl = ''https://hooks.example/x'',
        provider = GithubProvider ''github'',
        protectMain = Some True, protectMainChecks = None,
        repository = DataGithubRepository (new ''repo''
          \<lparr> data_name = ''cdktf-provider-aws'',
            data_provider = GithubProvider ''github'' \<rparr>) \<rparr>)) =
     [KIssueLabel, KBranchProtection, KTeamRepository, KRepositoryWebhook, KRepositoryFile]
   \<and> map kind_of (declarations (RepositorySetup_v2 ''repository-setup''
      \<lparr> team = \<lparr> ITeam_id = ''42'' \<rparr>, webhookUrl = Some ''https://hooks.example/x'',
        provider = GithubProvider ''github'',
        protectMain = Some True, protectMainChecks = None,
        repository = DataGithubRepository (new ''repo''
          \<lparr> data_name = ''cdktf-provider-aws'',
            data_provider = GithubProvider ''github'' \<rparr>) \<rparr>)) =
     [KIssueLabel, KIssueLabel, KIssueLabel, KBranchProtection, KTeamRepository,
      KRepositoryWebhook]
   \<and> map kind_of (declarations (RepositorySetup_v0 ''repository-setup''
      \<lparr> team = \<lparr> ITeam_id = ''42'' \<rparr>, webhookUrl = ''https://hooks.example/x'',
        provider = GithubProvider ''github'',
        protectMain = Some True, protectMainChecks = None,
        repository = DataGithubRepository (new ''repo''
          \<lparr> data_name = ''cdktf-provider-aws'',
            data_provider = GithubProvider ''github'' \<rparr>) \<rparr>)) =
     [KIssueLabel, KBranchProtection, KTeamRepository, KRepositoryWebhook]"
  using fixed_order [where n = "''repository-setup''"
      and ?c1.0 = "\<lparr> team = \<lparr> ITeam_id = ''42'' \<rparr>, webhookUrl = ''https://hooks.example/x'',
        provider = GithubProvider ''github'',
        protectMain = Some True, protectMainChecks = None,
        repository = DataGithubRepository (new ''repo''
          \<lparr> data_name = ''cdktf-provider-aws'',
            data_provider = GithubProvider ''github'' \<rparr>) \<rparr>"
      and ?c2.0 = "\<lparr> team = \<lparr> ITeam_id = ''42'' \<rparr>, webhookUrl = Some ''https://hooks.example/x'',
        provider = GithubProvider ''github'',
        protectMain = Some True, protectMainChecks = None,
        repository = DataGithubRepository (new ''repo''
          \<lparr> data_name = ''cdktf-provider-aws'',
            data_provider = GithubProvider ''github'' \<rparr>) \<rparr>"]
  by simp

text \<open>
  Claim C9. \<^verbatim>\<open>addSecret(name)\<close> adds one secret construct with one binding, which refers
  to the repository resource of this \<^verbatim>\<open>GithubRepository\<close> and to the provider it was
  constructed with; nothing else of the construct changes.
\<close>

theorem addSecret_binds_once:
  "secrets (addSecret g name) =
     secrets g @
       [\<lparr> secret_name = name,
          bindings = [\<lparr> sb_variable = name, sb_repository = Repository (resource g),
                        sb_provider = this_provider g \<rparr>] \<rparr>]
   \<and> concat (map bindings (secrets (addSecret g name))) =
     concat (map bindings (secrets g)) @
       [\<lparr> sb_variable = name, sb_repository = Repository (resource g),
          sb_provider = this_provider g \<rparr>]
   \<and> resource (addSecret g name) = resource g
   \<and> this_provider (addSecret g name) = this_provider g
   \<and> repository_setup (addSecret g name) = repository_setup g
   \<and> this_provider (GithubRepository_v1 n c1) = provider c1
   \<and> this_provider (GithubRepository_v2 n c2) = provider c2
   \<and> secrets (GithubRepository_v1 n c1) = []
   \<and> secrets (GithubRepository_v2 n c2) = []"
  by (simp add: addSecret_def Let_def new_SecretFromVariable_def secret_for_def
      GithubRepository_v1_def GithubRepository_v2_def)

text \<open>Claim C9 for \<^verbatim>\<open>addSecret("TOKEN")\<close> on a fresh construct of either revision.\<close>

theorem addSecret_binds_once_witness:
  "map sb_provider (concat (map bindings (secrets (addSecret
      (GithubRepository_v2 ''cdktf-provider-aws''
         \<lparr> team = \<lparr> ITeam_id = ''42'' \<rparr>, webhookUrl = None,
           provider = GithubProvider ''github'',
           protectMain = None, protectMainChecks = None,
           description = None, topics = None \<rparr>) ''TOKEN'')))) = [GithubProvider ''github'']
   \<and> map (repository_name \<circ> sb_repository) (concat (map bindings (secrets (addSecret
      (GithubRepository_v1 ''cdktf-provider-aws''
         \<lparr> team = \<lparr> ITeam_id = ''42'' \<rparr>, webhookUrl = ''https://hooks.example/x'',
           provider = GithubProvider ''github'',
           protectMain = None, protectMainChecks = None,
           description = None, topics = None \<rparr>) ''TOKEN'')))) = [''cdktf-provider-aws'']"
  using
    addSecret_binds_once [where name = "''TOKEN''" and n = "''cdktf-provider-aws''"
      and g = "GithubRepository_v2 ''cdktf-provider-aws''
         \<lparr> team = \<lparr> ITeam_id = ''42'' \<rparr>, webhookUrl = None,
           provider = GithubProvider ''github'',
           protectMain = None, protectMainChecks = None,
           description = None, topics = None \<rparr>"
      and ?c2.0 = "\<lparr> team = \<lparr> ITeam_id = ''42'' \<rparr>, webhookUrl = None,
           provider = GithubProvider ''github'',
           protectMain = None, protectMainChecks = None,
           description = None, topics = None \<rparr>"]
    addSecret_binds_once [where name = "''TOKEN''" and n = "''cdktf-provider-aws''"
      and g = "GithubRepository_v1 ''cdktf-provider-aws''
         \<lparr> team = \<lparr> ITeam_id = ''42'' \<rparr>, webhookUrl = ''https://hooks.example/x'',
           provider = GithubProvider ''github'',
           protectMain = None, protectMainChecks = None,
           description = None, topics = None \<rparr>"
      and ?c1.0 = "\<lparr> team = \<lparr> ITeam_id = ''42'' \<rparr>, webhookUrl = ''https://hooks.example/x'',
           provider = GithubProvider ''github'',
           protectMain = None, protectMainChecks = None,
           description = None, topics = None \<rparr>"]
  by (simp add: resource_v1)

text \<open>
  Claim C10, as the code has it. In v1 (and v0) \<^verbatim>\<open>GithubRepositoryFromExistingRepository\<close>
  hands its configuration object on to \<^verbatim>\<open>RepositorySetup\<close>. An object without
  \<^verbatim>\<open>protectMain\<close>, as every object with just the declared properties is, or with
  \<^verbatim>\<open>protectMain\<close> false, gives no branch protection. The declared type leaves the property
  out but does not keep it out: an object that also carries \<^verbatim>\<open>protectMain\<close> true gives
  the branch protection on \<^verbatim>\<open>main\<close>, with the checks it carries or else \<^verbatim>\<open>build\<close>. In
  v2 the configuration is the full one, and \<^verbatim>\<open>protectMain\<close> true gives the branch
  protection as well.
\<close>

theorem existing_repository_protection_follows_config:
  "(protectMain (config c) = None \<or> protectMain (config c) = Some False \<longrightarrow>
      filter is_BranchProtection (declarations (repository_setup
        (GithubRepositoryFromExistingRepository_v1 n c))) = []
      \<and> filter is_BranchProtection (declarations (repository_setup
        (GithubRepositoryFromExistingRepository_v0 n c))) = [])
   \<and> (protectMain (config c) = Some True \<longrightarrow>
      filter is_BranchProtection (declarations (repository_setup
        (GithubRepositoryFromExistingRepository_v1 n c))) =
        [BranchProtection
           \<lparr> pattern = ''main'', repositoryId = repositoryName c,
             enforceAdmins = True, allowsDeletions = False, allowsForcePushes = False,
             requiredPullRequestReviews = None, requireConversationResolution = None,
             requiredStatusChecks =
               [\<lparr> strict = True, contexts = default_to [''build''] (protectMainChecks (config c)) \<rparr>],
             bp_provider = provider (config c) \<rparr>]
      \<and> filter is_BranchProtection (declarations (repository_setup
        (GithubRepositoryFromExistingRepository_v0 n c))) =
        [BranchProtection
           \<lparr> pattern = ''main'', repositoryId = repositoryName c,
             enforceAdmins = True, allowsDeletions = False, allowsForcePushes = False,
             requiredPullRequestReviews = None, requireConversationResolution = None,
             requiredStatusChecks =
               [\<lparr> strict = True, contexts = default_to [''build''] (protectMainChecks (config c)) \<rparr>],
             bp_provider = provider (config c) \<rparr>])
   \<and> (protectMain (config c2) = Some True \<longrightarrow>
      map kind_of (filter is_BranchProtection (declarations (repository_setup
        (GithubRepositoryFromExistingRepository_v2 n c2)))) = [KBranchProtection])"
  by (auto simp add: GithubRepositoryFromExistingRepository_v0_def
      GithubRepositoryFromExistingRepository_v1_def
      GithubRepositoryFromExistingRepository_v2_def Let_def new_def
      declarations_v0 declarations_v1 declarations_v2 literal_defs)

text \<open>
  Claim C10 at an existing repository: without \<^verbatim>\<open>protectMain\<close>, and with it set to true
  in v1 and in v2.
\<close>

theorem existing_repository_protection_follows_config_witness:
  "filter is_BranchProtection (declarations (repository_setup
      (GithubRepositoryFromExistingRepository_v1 ''existing''
         \<lparr> config = \<lparr> team = \<lparr> ITeam_id = ''42'' \<rparr>,
             webhookUrl = ''https://hooks.example/x'',
             provider = GithubProvider ''github'',
             protectMain = None, protectMainChecks = None \<rparr>,
           repositoryName = ''cdktf-provider-aws'' \<rparr>))) = []
   \<and> filter is_BranchProtection (declarations (repository_setup
      (GithubRepositoryFromExistingRepository_v0 ''existing''
         \<lparr> config = \<lparr> team = \<lparr> ITeam_id = ''42'' \<rparr>,
             webhookUrl = ''https://hooks.example/x'',
             provider = GithubProvider ''github'',
             protectMain = None, protectMainChecks = None \<rparr>,
           repositoryName = ''cdktf-provider-aws'' \<rparr>))) = []
   \<and> filter is_BranchProtection (declarations (repository_setup
      (GithubRepositoryFromExistingRepository_v1 ''existing''
         \<lparr> config = \<lparr> team = \<lparr> ITeam_id = ''42'' \<rparr>,
             webhookUrl = ''https://hooks.example/x'',
             provider = GithubProvider ''github'',
             protectMain = Some True, protectMainChecks = None \<rparr>,
           repositoryName = ''cdktf-provider-aws'' \<rparr>))) =
        [BranchProtection
           \<lparr> pattern = ''main'', repositoryId = ''cdktf-provider-aws'',
             enforceAdmins = True, allowsDeletions = False, allowsForcePushes = False,
             requiredPullRequestReviews = None, requireConversationResolution = None,
             requiredStatusChecks =
               [\<lparr> strict = True, contexts = [''build''] \<rparr>],
             bp_provider = GithubProvider ''github'' \<rparr>]
   \<and> map kind_of (filter is_BranchProtection (declarations (repository_setup
      (GithubRepositoryFromExistingRepository_v2 ''existing''
         \<lparr> config = \<lparr> team = \<lparr> ITeam_id = ''42'' \<rparr>, webhookUrl = None,
             provider = GithubProvider ''github'',
             protectMain = Some True, protectMainChecks = None,
             description = None, topics = None \<rparr>,
           repositoryName = ''cdktf-provider-aws'' \<rparr>)))) = [KBranchProtection]"
  using
    existing_repository_protection_follows_config [where n = "''existing''"
      and c = "\<lparr> config = \<lparr> team = \<lparr> ITeam_id = ''42'' \<rparr>,
             webhookUrl = ''https://hooks.example/x'',
             provider = GithubProvider ''github'',
             protectMain = None, protectMainChecks = None \<rparr>,
           repositoryName = ''cdktf-provider-aws'' \<rparr>"
      and ?c2.0 = "\<lparr> config = \<lparr> team = \<lparr> ITeam_id = ''42'' \<rparr>, webhookUrl = None,
             provider = GithubProvider ''github'',
             protectMain = Some True, protectMainChecks = None,
             description = None, topics = None \<rparr>,
           repositoryName = ''cdktf-provider-aws'' \<rparr>"]
    existing_repository_protection_follows_config [where n = "''existing''"
      and c = "\<lparr> config = \<lparr> team = \<lparr> ITeam_id = ''42'' \<rparr>,
             webhookUrl = ''https://hooks.example/x'',
             provider = GithubProvider ''github'',
             protectMain = Some True, protectMainChecks = None \<rparr>,
           repositoryName = ''cdktf-provider-aws'' \<rparr>"
      and ?c2.0 = "\<lparr> config = \<lparr> team = \<lparr> ITeam_id = ''42'' \<rparr>, webhookUrl = None,
             provider = GithubProvider ''github'',
             protectMain = Some True, protectMainChecks = None,
             description = None, topics = None \<rparr>,
           repositoryName = ''cdktf-provider-aws'' \<rparr>"]
  by simp

text \<open>
  Claim C10 as stated has no branch protection in the graph of any v1 construction. A
  configuration object that carries \<^verbatim>\<open>protectMain\<close> true next to the declared properties
  gets one.
\<close>

theorem existing_repository_protected_counterexample:
  "\<not> (filter is_BranchProtection (declarations (repository_setup
      (GithubRepositoryFromExistingRepository_v1 ''existing''
         \<lparr> config = \<lparr> team = \<lparr> ITeam_id = ''42'' \<rparr>,
             webhookUrl = ''https://hooks.example/x'',
             provider = GithubProvider ''github'',
             protectMain = Some True, protectMainChecks = None \<rparr>,
           repositoryName = ''cdktf-provider-aws'' \<rparr>))) = [])"
  by (simp add: GithubRepositoryFromExistingRepository_v1_def Let_def
      declarations_v1 literal_defs)

end
